theory Spec2Isabelle
  imports Complex_Main "HOL-Library.Sublist" "HOL-Library.Multiset"
begin

section \<open>PulseNoteAlgorithm: the feed ranking engine of popup.js\<close>

text \<open>
  The class \<^verbatim>\<open>PulseNoteAlgorithm\<close> keeps three maps (impressions and engagements per
  user, and a feed cache) and ranks posts by a weighted score. The embedding follows the
  class method by method.

  Conventions of the embedding:
  \<^item> JavaScript numbers are real numbers; \<^verbatim>\<open>Math.exp\<close> is \<open>exp\<close>. Rounding, infinities
    and NaN are outside the model.
  \<^item> \<^verbatim>\<open>Date.now()\<close> is the parameter \<open>now\<close> (milliseconds), read once per call;
    \<^verbatim>\<open>new Date(post.createdAt).getTime()\<close> is the integer field \<open>createdAt\<close>.
  \<^item> \<^verbatim>\<open>window.innerWidth\<close> is the parameter \<open>innerWidth\<close>.
  \<^item> Impressions, engagements, metadata and preferences are duck-typed objects: maps from
    key to JavaScript value. A post is a record of the fields the engine reads.
  \<^item> The outcome of the \<^verbatim>\<open>fetch\<close> behind a persistence call is a parameter; what the
    handlers print with \<^verbatim>\<open>console.error\<close> is collected in the field \<open>console\<close>.
\<close>

subsection \<open>JavaScript values and objects\<close>

datatype jsval = JUndefined | JNull | JBool bool | JNum real | JStr string

type_synonym jsobject = "string \<rightharpoonup> jsval"

text \<open>Reading a property: a missing key reads as \<^verbatim>\<open>undefined\<close>.\<close>

definition getProp :: "jsobject \<Rightarrow> string \<Rightarrow> jsval" where
  "getProp obj k = (case obj k of None \<Rightarrow> JUndefined | Some v \<Rightarrow> v)"

fun truthy :: "jsval \<Rightarrow> bool" where
  "truthy JUndefined = False"
| "truthy JNull = False"
| "truthy (JBool b) = b"
| "truthy (JNum x) = (x \<noteq> 0)"
| "truthy (JStr s) = (s \<noteq> [])"

text \<open>The operator \<^verbatim>\<open>a || b\<close>.\<close>

definition orElse :: "jsval \<Rightarrow> jsval \<Rightarrow> jsval" where
  "orElse a b = (if truthy a then a else b)"

datatype error = TypeError | HttpError nat | NetworkError | JsonError

subsection \<open>Posts\<close>

record engagementCount =
  likes :: nat
  reposts :: nat
  replies :: nat

text \<open>
  The fields of a post that the engine reads. \<^verbatim>\<open>displayName\<close> is kept as a JavaScript
  value, since posts are stored with a name, with \<^verbatim>\<open>null\<close> or without one.
\<close>

record post =
  post_id :: string
  anonymousId :: string
  displayName :: jsval
  createdAt :: int
  engagementCount :: "engagementCount option"
  impressionCount :: nat

text \<open>
  \<^verbatim>\<open>post.engagementCount?.likes || 0\<close> and its two siblings: a missing
  \<^verbatim>\<open>engagementCount\<close> reads as 0, and on a counter \<^verbatim>\<open>|| 0\<close> changes nothing.
\<close>

definition likesOf :: "post \<Rightarrow> nat" where
  "likesOf p = (case engagementCount p of None \<Rightarrow> 0 | Some c \<Rightarrow> likes c)"

definition repostsOf :: "post \<Rightarrow> nat" where
  "repostsOf p = (case engagementCount p of None \<Rightarrow> 0 | Some c \<Rightarrow> reposts c)"

definition repliesOf :: "post \<Rightarrow> nat" where
  "repliesOf p = (case engagementCount p of None \<Rightarrow> 0 | Some c \<Rightarrow> replies c)"

text \<open>
  \<^verbatim>\<open>post.impressionCount || 1\<close>, the only way the engine reads the field; a missing
  \<^verbatim>\<open>impressionCount\<close> is the count 0, which \<^verbatim>\<open>|| 1\<close> treats alike.
\<close>

definition impressionsOr1 :: "post \<Rightarrow> nat" where
  "impressionsOr1 p = (if impressionCount p = 0 then 1 else impressionCount p)"

record scoredPost =
  base :: post
  score :: real

record trendPost =
  tbase :: post
  trendScore :: real

subsection \<open>Engine state\<close>

record cacheEntry =
  feed :: "scoredPost list"
  timestamp :: int

record engine =
  userImpressions :: "string \<rightharpoonup> jsobject list"
  userEngagements :: "string \<rightharpoonup> jsobject list"
  feedCache :: "string \<rightharpoonup> cacheEntry"
  console :: "string list"

text \<open>The constructor: empty maps.\<close>

definition newEngine :: engine where
  "newEngine = \<lparr>userImpressions = Map.empty, userEngagements = Map.empty,
                 feedCache = Map.empty, console = []\<rparr>"

text \<open>The fields of \<^verbatim>\<open>this.config\<close>, which no method changes.\<close>

definition impressionDecayFactor :: real where "impressionDecayFactor = 0.95"
definition engagementWeight :: real where "engagementWeight = 0.6"
definition recencyWeight :: real where "recencyWeight = 0.3"
definition diversityWeight :: real where "diversityWeight = 0.1"
definition maxFeedSize :: int where "maxFeedSize = 50"
definition impressionCacheTTL :: int where "impressionCacheTTL = 3600000"

subsection \<open>Recording impressions and engagements\<close>

definition getDeviceType :: "int \<Rightarrow> string" where
  "getDeviceType innerWidth =
     (if innerWidth < 768 then ''mobile''
      else if innerWidth < 1024 then ''tablet''
      else ''desktop'')"

text \<open>
  What the \<^verbatim>\<open>fetch\<close> of a persistence call does: it rejects, or it resolves with a
  status and a body that parses as JSON or does not.
\<close>

datatype fetchOutcome = FetchRejected | FetchResponse nat bool

text \<open>
  \<^verbatim>\<open>persistImpression\<close> and \<^verbatim>\<open>persistEngagement\<close>: the value the returned promise
  settles to (\<open>Inl\<close> for a rejection) and the lines printed by the \<^verbatim>\<open>catch\<close> block, which
  rethrows.
\<close>

definition persist :: "string \<Rightarrow> fetchOutcome \<Rightarrow> (error + unit) \<times> string list" where
  "persist msg outcome =
     (let r = (case outcome of
                 FetchRejected \<Rightarrow> Inl NetworkError
               | FetchResponse status jsonOk \<Rightarrow>
                   if \<not> (200 \<le> status \<and> status \<le> 299) then Inl (HttpError status)
                   else if jsonOk then Inr ()
                   else Inl JsonError)
      in case r of
           Inl err \<Rightarrow> (Inl err, [msg])
         | Inr u \<Rightarrow> (Inr u, []))"

definition persistImpression :: "fetchOutcome \<Rightarrow> (error + unit) \<times> string list" where
  "persistImpression = persist ''Impression persistence failed:''"

definition persistEngagement :: "fetchOutcome \<Rightarrow> (error + unit) \<times> string list" where
  "persistEngagement = persist ''Engagement persistence failed:''"

text \<open>\<^verbatim>\<open>promise.catch(err => console.error(msg, err))\<close>: the rejection ends in a log line.\<close>

definition catchLog :: "string \<Rightarrow> (error + unit) \<times> string list \<Rightarrow> string list" where
  "catchLog msg r =
     (case fst r of Inl err \<Rightarrow> snd r @ [msg] | Inr u \<Rightarrow> snd r)"

text \<open>\<^verbatim>\<open>if (!map.has(userId)) map.set(userId, []); map.get(userId).push(x)\<close>.\<close>

definition pushFor :: "(string \<rightharpoonup> jsobject list) \<Rightarrow> string \<Rightarrow> jsobject \<Rightarrow> (string \<rightharpoonup> jsobject list)" where
  "pushFor m userId x =
     (let m' = (if m userId = None then m(userId \<mapsto> []) else m)
      in m'(userId \<mapsto> (case m' userId of None \<Rightarrow> [] | Some xs \<Rightarrow> xs) @ [x]))"

text \<open>The object literal of \<^verbatim>\<open>recordImpression\<close>; \<^verbatim>\<open>...metadata\<close> comes last.\<close>

definition makeImpression :: "int \<Rightarrow> int \<Rightarrow> string \<Rightarrow> string \<Rightarrow> jsobject \<Rightarrow> jsobject" where
  "makeImpression now innerWidth postId userId metadata =
     [''postId'' \<mapsto> JStr postId,
      ''userId'' \<mapsto> JStr userId,
      ''timestamp'' \<mapsto> JNum (real_of_int now),
      ''viewDuration'' \<mapsto> orElse (getProp metadata ''viewDuration'') (JNum 0),
      ''scrollDepth'' \<mapsto> orElse (getProp metadata ''scrollDepth'') (JNum 0),
      ''inViewport'' \<mapsto> JBool (getProp metadata ''inViewport'' \<noteq> JBool False),
      ''deviceType'' \<mapsto> JStr (getDeviceType innerWidth)]
     ++ metadata"

definition recordImpression ::
  "engine \<Rightarrow> int \<Rightarrow> int \<Rightarrow> fetchOutcome \<Rightarrow> string \<Rightarrow> string \<Rightarrow> jsobject \<Rightarrow> jsobject \<times> engine" where
  "recordImpression s now innerWidth outcome postId userId metadata =
     (let impression = makeImpression now innerWidth postId userId metadata;
          s1 = s\<lparr>userImpressions := pushFor (userImpressions s) userId impression\<rparr>;
          printed = catchLog ''Failed to persist impression:'' (persistImpression outcome)
      in (impression, s1\<lparr>console := console s1 @ printed\<rparr>))"

text \<open>The object literal of \<^verbatim>\<open>recordEngagement\<close>.\<close>

definition makeEngagement :: "int \<Rightarrow> string \<Rightarrow> string \<Rightarrow> jsval \<Rightarrow> jsobject \<Rightarrow> jsobject" where
  "makeEngagement now postId userId engagementType metadata =
     [''postId'' \<mapsto> JStr postId,
      ''userId'' \<mapsto> JStr userId,
      ''type'' \<mapsto> engagementType,
      ''timestamp'' \<mapsto> JNum (real_of_int now)]
     ++ metadata"

definition recordEngagement ::
  "engine \<Rightarrow> int \<Rightarrow> fetchOutcome \<Rightarrow> string \<Rightarrow> string \<Rightarrow> jsval \<Rightarrow> jsobject \<Rightarrow> jsobject \<times> engine" where
  "recordEngagement s now outcome postId userId engagementType metadata =
     (let engagement = makeEngagement now postId userId engagementType metadata;
          s1 = s\<lparr>userEngagements := pushFor (userEngagements s) userId engagement\<rparr>;
          printed = catchLog ''Failed to persist engagement:'' (persistEngagement outcome)
      in (engagement, s1\<lparr>console := console s1 @ printed\<rparr>))"

subsection \<open>Array helpers\<close>

text \<open>
  A callback that may throw is a function into \<open>error + 'b\<close>; \<^verbatim>\<open>map\<close> and
  \<^verbatim>\<open>filter\<close> call it from left to right and stop at the first throw.
\<close>

fun mapE :: "('a \<Rightarrow> error + 'b) \<Rightarrow> 'a list \<Rightarrow> error + 'b list" where
  "mapE f [] = Inr []"
| "mapE f (x # xs) =
     (case f x of
        Inl e \<Rightarrow> Inl e
      | Inr y \<Rightarrow> (case mapE f xs of Inl e \<Rightarrow> Inl e | Inr ys \<Rightarrow> Inr (y # ys)))"

fun filterE :: "('a \<Rightarrow> error + bool) \<Rightarrow> 'a list \<Rightarrow> error + 'a list" where
  "filterE f [] = Inr []"
| "filterE f (x # xs) =
     (case f x of
        Inl e \<Rightarrow> Inl e
      | Inr b \<Rightarrow> (case filterE f xs of
                    Inl e \<Rightarrow> Inl e
                  | Inr ys \<Rightarrow> Inr (if b then x # ys else ys)))"

text \<open>
  \<^verbatim>\<open>xs.slice(0, end)\<close> for an integer \<^verbatim>\<open>end\<close>: a negative \<^verbatim>\<open>end\<close> counts from the
  end of the array.
\<close>

definition slice0 :: "int \<Rightarrow> 'a list \<Rightarrow> 'a list" where
  "slice0 e xs = (if e < 0 then take (nat (int (length xs) + e)) xs else take (nat e) xs)"

text \<open>
  \<^verbatim>\<open>xs.sort((a, b) => key(b) - key(a))\<close>: \<^verbatim>\<open>Array.prototype.sort\<close> is stable, and this
  comparator puts the larger key first.
\<close>

definition sortByDesc :: "('a \<Rightarrow> real) \<Rightarrow> 'a list \<Rightarrow> 'a list" where
  "sortByDesc key xs = sort_key (\<lambda>x. - key x) xs"

text \<open>
  \<^verbatim>\<open>v.startsWith(p)\<close>: a string method; on any other value the call is a TypeError.
\<close>

fun startsWith :: "jsval \<Rightarrow> string \<Rightarrow> error + bool" where
  "startsWith (JStr s) p = Inr (prefix p s)"
| "startsWith v p = Inl TypeError"

subsection \<open>Scores\<close>

definition ageInHours :: "int \<Rightarrow> post \<Rightarrow> real" where
  "ageInHours now p = real_of_int (now - createdAt p) / 3600000"

definition calculateEngagementScore :: "post \<Rightarrow> real" where
  "calculateEngagementScore p =
     (real (likesOf p) * 1.0 + real (repostsOf p) * 2.0 + real (repliesOf p) * 3.0)
       / max 1 (real (likesOf p + repostsOf p + repliesOf p))"

definition calculateRecencyScore :: "int \<Rightarrow> post \<Rightarrow> real" where
  "calculateRecencyScore now p = exp (- ageInHours now p / 24)"

definition engagementsOf :: "engine \<Rightarrow> string \<Rightarrow> jsobject list" where
  "engagementsOf s userId = (case userEngagements s userId of None \<Rightarrow> [] | Some es \<Rightarrow> es)"

definition impressionsOf :: "engine \<Rightarrow> string \<Rightarrow> jsobject list" where
  "impressionsOf s userId = (case userImpressions s userId of None \<Rightarrow> [] | Some is \<Rightarrow> is)"

definition calculateDiversityScore :: "engine \<Rightarrow> post \<Rightarrow> string \<Rightarrow> error + real" where
  "calculateDiversityScore s p userId =
     (let userPosts = engagementsOf s userId
      in case filterE (\<lambda>e. startsWith (getProp e ''postId'') (anonymousId p)) userPosts of
           Inl err \<Rightarrow> Inl err
         | Inr sameAuthorEngagements \<Rightarrow>
             Inr (1.0 / (1.0 + real (length sameAuthorEngagements) * 0.1)))"

text \<open>
  \<^verbatim>\<open>calculateImpressionScore\<close> also computes \<^verbatim>\<open>timeSinceLastView\<close> and never uses it.
\<close>

definition calculateImpressionScore :: "engine \<Rightarrow> post \<Rightarrow> string \<Rightarrow> real" where
  "calculateImpressionScore s p userId =
     (let postImpressions =
            filter (\<lambda>i. getProp i ''postId'' = JStr (post_id p)) (impressionsOf s userId)
      in if length postImpressions > 0
         then impressionDecayFactor ^ length postImpressions
         else 1.0)"

definition calculatePostScore :: "engine \<Rightarrow> int \<Rightarrow> post \<Rightarrow> string \<Rightarrow> jsobject \<Rightarrow> error + real" where
  "calculatePostScore s now p userId userPreferences =
     (let engagementScore = calculateEngagementScore p;
          recencyScore = calculateRecencyScore now p
      in case calculateDiversityScore s p userId of
           Inl err \<Rightarrow> Inl err
         | Inr diversityScore \<Rightarrow>
             (let impressionScore = calculateImpressionScore s p userId;
                  finalScore = engagementScore * engagementWeight
                             + recencyScore * recencyWeight
                             + diversityScore * diversityWeight
                             + impressionScore * 0.0
              in Inr (if truthy (getProp userPreferences ''boostRecent'')
                      then finalScore * 1.2 else finalScore)))"

subsection \<open>Feeds\<close>

definition generateFeed ::
  "engine \<Rightarrow> int \<Rightarrow> post list \<Rightarrow> string \<Rightarrow> jsobject \<Rightarrow> error + scoredPost list \<times> engine" where
  "generateFeed s now allPosts userId userPreferences =
     (let cacheKey = ''feed_'' @ userId;
          hit = (case feedCache s cacheKey of
                   None \<Rightarrow> None
                 | Some cached \<Rightarrow>
                     if now - timestamp cached < impressionCacheTTL then Some (feed cached)
                     else None)
      in case hit of
           Some f \<Rightarrow> Inr (f, s)
         | None \<Rightarrow>
             (case mapE (\<lambda>p. case calculatePostScore s now p userId userPreferences of
                                Inl err \<Rightarrow> Inl err
                              | Inr sc \<Rightarrow> Inr \<lparr>base = p, score = sc\<rparr>) allPosts of
                Inl err \<Rightarrow> Inl err
              | Inr scoredPosts \<Rightarrow>
                  (let rankedPosts = slice0 maxFeedSize (sortByDesc score scoredPosts)
                   in Inr (rankedPosts,
                           s\<lparr>feedCache := (feedCache s)(cacheKey \<mapsto>
                                \<lparr>feed = rankedPosts, timestamp = now\<rparr>)\<rparr>))))"

definition calculateTrendScore :: "post \<Rightarrow> int \<Rightarrow> real" where
  "calculateTrendScore p now =
     (let engagementRate = real (likesOf p) / max 1 (real (impressionsOr1 p))
      in engagementRate * exp (- ageInHours now p / 6))"

definition getTrendingPosts :: "int \<Rightarrow> post list \<Rightarrow> int \<Rightarrow> trendPost list" where
  "getTrendingPosts now allPosts limit =
     slice0 limit
       (sortByDesc trendScore
          (map (\<lambda>p. \<lparr>tbase = p, trendScore = calculateTrendScore p now\<rparr>) allPosts))"

text \<open>
  \<^verbatim>\<open>getRecommendedPosts\<close> returns trend-scored posts for a user without engagements and
  scored posts otherwise.
\<close>

datatype recommendation = TrendingPosts "trendPost list" | ScoredPosts "scoredPost list"

text \<open>
  The posts that pass the filter of \<^verbatim>\<open>getRecommendedPosts\<close>;
  \<^verbatim>\<open>engagedPosts[0]?.displayName\<close> is \<^verbatim>\<open>undefined\<close> when no post of \<open>allPosts\<close> was
  engaged with; \<^verbatim>\<open>!==\<close> tells \<^verbatim>\<open>undefined\<close>, \<^verbatim>\<open>null\<close> and strings apart.
\<close>

definition recommendedCandidates :: "post list \<Rightarrow> jsobject list \<Rightarrow> post list" where
  "recommendedCandidates allPosts userEngs =
     (let engagedPostIds = map (\<lambda>e. getProp e ''postId'') userEngs;
          engagedPosts = filter (\<lambda>p. JStr (post_id p) \<in> set engagedPostIds) allPosts;
          firstName = (case engagedPosts of [] \<Rightarrow> JUndefined | p # ps \<Rightarrow> displayName p)
      in filter (\<lambda>p. JStr (post_id p) \<notin> set engagedPostIds
                      \<and> displayName p \<noteq> firstName) allPosts)"

definition getRecommendedPosts ::
  "engine \<Rightarrow> int \<Rightarrow> post list \<Rightarrow> string \<Rightarrow> int \<Rightarrow> error + recommendation" where
  "getRecommendedPosts s now allPosts userId limit =
     (let userEngs = engagementsOf s userId
      in if length userEngs = 0 then Inr (TrendingPosts (getTrendingPosts now allPosts limit))
         else
           (let recommended = recommendedCandidates allPosts userEngs
            in case mapE (\<lambda>p. case calculatePostScore s now p userId Map.empty of
                                 Inl err \<Rightarrow> Inl err
                               | Inr sc \<Rightarrow> Inr \<lparr>base = p, score = sc\<rparr>)
                         (slice0 limit recommended) of
                 Inl err \<Rightarrow> Inl err
               | Inr scored \<Rightarrow> Inr (ScoredPosts (sortByDesc score scored))))"

datatype popularity = Viral | Trending | Popular | Normal

definition getPostPopularity :: "post \<Rightarrow> popularity" where
  "getPostPopularity p =
     (let impressions = impressionsOr1 p;
          engagementRate = real (likesOf p + repostsOf p + repliesOf p) / real impressions
      in if engagementRate > 0.1 then Viral
         else if engagementRate > 0.05 then Trending
         else if engagementRate > 0.02 then Popular
         else Normal)"

text \<open>
  The engagements of a history all carry a string under \<^verbatim>\<open>postId\<close>, as the documented
  parameter type of \<^verbatim>\<open>recordEngagement\<close> has it.
\<close>

definition stringPostIds :: "jsobject list \<Rightarrow> bool" where
  "stringPostIds es =
     list_all (\<lambda>e. case getProp e ''postId'' of JStr s \<Rightarrow> True | _ \<Rightarrow> False) es"

text \<open>The test of \<^verbatim>\<open>generateFeed\<close> for a cache entry that has not expired.\<close>

definition cacheValid :: "engine \<Rightarrow> int \<Rightarrow> string \<Rightarrow> bool" where
  "cacheValid s now userId =
     (case feedCache s (''feed_'' @ userId) of
        None \<Rightarrow> False
      | Some cached \<Rightarrow> now - timestamp cached < impressionCacheTTL)"

text \<open>
  \<^verbatim>\<open>engagedPosts[0]?.displayName\<close> of \<^verbatim>\<open>getRecommendedPosts\<close> on its own: the display name
  of the first post of \<open>allPosts\<close> that the user engaged with.
\<close>

definition firstEngagedName :: "post list \<Rightarrow> jsobject list \<Rightarrow> jsval" where
  "firstEngagedName allPosts userEngs =
     (let engagedPostIds = map (\<lambda>e. getProp e ''postId'') userEngs;
          engagedPosts = filter (\<lambda>p. JStr (post_id p) \<in> set engagedPostIds) allPosts
      in case engagedPosts of [] \<Rightarrow> JUndefined | p # ps \<Rightarrow> displayName p)"

text \<open>
  The specification's reading of \<^verbatim>\<open>getRecommendedPosts\<close>, for comparison with the code:
  exclude the posts the user engaged with and the posts of the author of the user's most
  recent engagement, score all remaining posts, sort descending, truncate to \<open>limit\<close>.
\<close>

definition recommendedPosts_asSpecified ::
  "engine \<Rightarrow> int \<Rightarrow> post list \<Rightarrow> string \<Rightarrow> int \<Rightarrow> error + recommendation" where
  "recommendedPosts_asSpecified s now allPosts userId limit =
     (let userEngs = engagementsOf s userId
      in if userEngs = [] then Inr (TrendingPosts (getTrendingPosts now allPosts limit))
         else
           (let engagedPostIds = map (\<lambda>e. getProp e ''postId'') userEngs;
                lastAuthor =
                  (case filter (\<lambda>p. JStr (post_id p) = getProp (last userEngs) ''postId'') allPosts of
                     [] \<Rightarrow> JUndefined
                   | p # ps \<Rightarrow> displayName p);
                candidates = filter (\<lambda>p. JStr (post_id p) \<notin> set engagedPostIds
                                          \<and> displayName p \<noteq> lastAuthor) allPosts
            in case mapE (\<lambda>p. case calculatePostScore s now p userId Map.empty of
                                 Inl err \<Rightarrow> Inl err
                               | Inr sc \<Rightarrow> Inr \<lparr>base = p, score = sc\<rparr>) candidates of
                 Inl err \<Rightarrow> Inl err
               | Inr scored \<Rightarrow> Inr (ScoredPosts (slice0 limit (sortByDesc score scored)))))"

subsection \<open>Example data\<close>

definition examplePost :: post where
  "examplePost = \<lparr>post_id = ''p1'', anonymousId = ''anon1'', displayName = JStr ''Ann'',
      createdAt = 0, engagementCount = Some \<lparr>likes = 3, reposts = 1, replies = 0\<rparr>,
      impressionCount = 50\<rparr>"

text \<open>An engine after one engagement and one impression of user \<^verbatim>\<open>u1\<close>.\<close>

definition exampleEngine :: engine where
  "exampleEngine =
     snd (recordImpression
            (snd (recordEngagement newEngine 0 FetchRejected ''anon1_7'' ''u1'' (JStr ''like'') Map.empty))
            0 800 FetchRejected ''p1'' ''u1'' Map.empty)"

text \<open>An engine whose cache holds a feed for user \<^verbatim>\<open>u1\<close>, stored at time 1000.\<close>

definition cachedEngine :: engine where
  "cachedEngine = newEngine\<lparr>feedCache :=
      [''feed_u1'' \<mapsto> \<lparr>feed = [\<lparr>base = examplePost, score = 1\<rparr>], timestamp = 1000\<rparr>]\<rparr>"

text \<open>
  Post A, created at the time of scoring, and post B, created 48 hours earlier.
\<close>

definition postA :: post where
  "postA = \<lparr>post_id = ''a1'', anonymousId = ''anon1'', displayName = JStr ''Ann'',
      createdAt = 172800000, engagementCount = Some \<lparr>likes = 100, reposts = 0, replies = 0\<rparr>,
      impressionCount = 1000\<rparr>"

definition postB :: post where
  "postB = \<lparr>post_id = ''b1'', anonymousId = ''anon2'', displayName = JStr ''Bob'',
      createdAt = 0, engagementCount = Some \<lparr>likes = 10, reposts = 0, replies = 0\<rparr>,
      impressionCount = 50\<rparr>"

text \<open>
  Four posts and an engine in which user \<^verbatim>\<open>u1\<close> liked \<^verbatim>\<open>p1\<close> and then \<^verbatim>\<open>p2\<close>.
\<close>

definition cexP1 :: post where
  "cexP1 = \<lparr>post_id = ''p1'', anonymousId = ''anonA'', displayName = JStr ''Ann'',
      createdAt = 0, engagementCount = None, impressionCount = 0\<rparr>"

definition cexP2 :: post where
  "cexP2 = \<lparr>post_id = ''p2'', anonymousId = ''anonB'', displayName = JStr ''Bob'',
      createdAt = 0, engagementCount = None, impressionCount = 0\<rparr>"

definition cexP3 :: post where
  "cexP3 = \<lparr>post_id = ''p3'', anonymousId = ''anonB'', displayName = JStr ''Bob'',
      createdAt = 0, engagementCount = Some \<lparr>likes = 1, reposts = 0, replies = 0\<rparr>,
      impressionCount = 10\<rparr>"

definition cexP4 :: post where
  "cexP4 = \<lparr>post_id = ''p4'', anonymousId = ''anonC'', displayName = JStr ''Cat'',
      createdAt = 0, engagementCount = Some \<lparr>likes = 0, reposts = 0, replies = 1\<rparr>,
      impressionCount = 10\<rparr>"

definition cexPosts :: "post list" where
  "cexPosts = [cexP1, cexP2, cexP3, cexP4]"

definition cexEngine :: engine where
  "cexEngine =
     snd (recordEngagement
            (snd (recordEngagement newEngine 0 (FetchResponse 200 True) ''p1'' ''u1'' (JStr ''like'') Map.empty))
            0 (FetchResponse 200 True) ''p2'' ''u1'' (JStr ''like'') Map.empty)"

text \<open>
  An engine in which user \<^verbatim>\<open>u1\<close> recorded one engagement whose metadata carries the
  number 5 under \<^verbatim>\<open>postId\<close>:
  \<^verbatim>\<open>recordEngagement('p1', 'u1', 'like', {postId: 5})\<close>.
\<close>

definition badEngine :: engine where
  "badEngine =
     snd (recordEngagement newEngine 0 (FetchResponse 200 True) ''p1'' ''u1'' (JStr ''like'')
            [''postId'' \<mapsto> JNum 5])"

text \<open>Posts for the popularity classes.\<close>

definition repostedPost :: post where
  "repostedPost = \<lparr>post_id = ''r1'', anonymousId = ''anon3'', displayName = JNull,
      createdAt = 0, engagementCount = Some \<lparr>likes = 0, reposts = 10, replies = 0\<rparr>,
      impressionCount = 10\<rparr>"

definition repliedPost :: post where
  "repliedPost = \<lparr>post_id = ''r2'', anonymousId = ''anon3'', displayName = JNull,
      createdAt = 0, engagementCount = Some \<lparr>likes = 0, reposts = 0, replies = 3\<rparr>,
      impressionCount = 100\<rparr>"

definition barePost :: post where
  "barePost = \<lparr>post_id = ''r3'', anonymousId = ''anon3'', displayName = JUndefined,
      createdAt = 0, engagementCount = None, impressionCount = 0\<rparr>"

section \<open>Properties\<close>

subsection \<open>Array helpers and totality of the scores\<close>

lemma mapE_Inr_all2: "mapE f xs = Inr ys \<Longrightarrow> list_all2 (\<lambda>x y. f x = Inr y) xs ys"
  by (induction xs arbitrary: ys) (auto split: sum.splits)

lemma mapE_total:
  "(\<And>x. x \<in> set xs \<Longrightarrow> \<exists>y. f x = Inr y) \<Longrightarrow> \<exists>ys. mapE f xs = Inr ys"
proof (induction xs)
  case Nil
  show ?case by simp
next
  case (Cons x xs)
  from Cons.prems obtain y where y: "f x = Inr y" by auto
  from Cons obtain ys where ys: "mapE f xs = Inr ys" by auto
  from y ys show ?case by simp
qed

lemma mapE_length: "mapE f xs = Inr ys \<Longrightarrow> length ys = length xs"
  using mapE_Inr_all2 [of f xs ys] by (simp add: list_all2_lengthD)

lemma filterE_total:
  "stringPostIds es \<Longrightarrow>
   \<exists>ys. filterE (\<lambda>e. startsWith (getProp e ''postId'') a) es = Inr ys"
proof (induction es)
  case Nil
  show ?case by simp
next
  case (Cons e es)
  from Cons.prems obtain str where "getProp e ''postId'' = JStr str"
    by (auto simp: stringPostIds_def split: jsval.splits)
  moreover from Cons obtain ys where
    "filterE (\<lambda>e. startsWith (getProp e ''postId'') a) es = Inr ys"
    by (auto simp: stringPostIds_def)
  ultimately show ?case by simp
qed

lemma diversity_total:
  assumes "stringPostIds (engagementsOf s userId)"
  shows "\<exists>d. calculateDiversityScore s p userId = Inr d \<and> 0 < d \<and> d \<le> 1"
proof -
  from filterE_total [OF assms] obtain ys where
    ys: "filterE (\<lambda>e. startsWith (getProp e ''postId'') (anonymousId p)) (engagementsOf s userId) = Inr ys"
    by blast
  have "calculateDiversityScore s p userId = Inr (1 / (1 + real (length ys) * 0.1))"
    by (simp add: calculateDiversityScore_def ys)
  moreover have "0 < 1 / (1 + real (length ys) * 0.1)" by simp
  moreover have "1 / (1 + real (length ys) * 0.1) \<le> 1" by simp
  ultimately show ?thesis by blast
qed

lemma calculatePostScore_total:
  assumes "stringPostIds (engagementsOf s userId)"
  shows "\<exists>sc. calculatePostScore s now p userId prefs = Inr sc"
proof -
  from diversity_total [OF assms] obtain d where "calculateDiversityScore s p userId = Inr d"
    by blast
  then show ?thesis by (simp add: calculatePostScore_def Let_def)
qed

lemma filterE_untyped:
  "\<not> stringPostIds es \<Longrightarrow>
   filterE (\<lambda>e. startsWith (getProp e ''postId'') a) es = Inl TypeError"
proof (induction es)
  case Nil
  then show ?case by (simp add: stringPostIds_def)
next
  case (Cons e es)
  show ?case
  proof (cases "getProp e ''postId''")
    case (JStr str)
    with Cons.prems have "\<not> stringPostIds es" by (simp add: stringPostIds_def)
    from Cons.IH [OF this] JStr show ?thesis by simp
  qed simp_all
qed

lemma diversity_untyped:
  "\<not> stringPostIds (engagementsOf s userId) \<Longrightarrow>
   calculateDiversityScore s p userId = Inl TypeError"
  by (simp add: calculateDiversityScore_def filterE_untyped)

lemma calculatePostScore_untyped:
  "\<not> stringPostIds (engagementsOf s userId) \<Longrightarrow>
   calculatePostScore s now p userId prefs = Inl TypeError"
  by (simp add: calculatePostScore_def Let_def diversity_untyped)

lemma mapE_first_fails: "xs \<noteq> [] \<Longrightarrow> (\<And>x. f x = Inl e) \<Longrightarrow> mapE f xs = Inl e"
  by (cases xs) simp_all

lemma slice0_length: "0 \<le> e \<Longrightarrow> length (slice0 e xs) = min (nat e) (length xs)"
  by (simp add: slice0_def)

lemma sortByDesc_length: "length (sortByDesc k xs) = length xs"
  by (simp add: sortByDesc_def)

subsection \<open>Recording\<close>

lemma pushFor_lookup:
  "pushFor m u x u = Some ((case m u of None \<Rightarrow> [] | Some xs \<Rightarrow> xs) @ [x])"
  by (simp add: pushFor_def Let_def)

lemma pushFor_other: "v \<noteq> u \<Longrightarrow> pushFor m u x v = m v"
  by (simp add: pushFor_def Let_def)

text \<open>
  C4, as the code has it. \<^verbatim>\<open>recordImpression\<close> returns the impression it built for every
  postId, userId and metadata, and that impression is the new last element of the user's
  list. Without a \<^verbatim>\<open>viewDuration\<close> key in the metadata the impression's
  \<^verbatim>\<open>viewDuration\<close> is 0, without a \<^verbatim>\<open>scrollDepth\<close> key its \<^verbatim>\<open>scrollDepth\<close> is 0,
  and without an \<^verbatim>\<open>inViewport\<close> key its \<^verbatim>\<open>inViewport\<close> is true
  (\<^verbatim>\<open>metadata.inViewport !== false\<close>), not false.
\<close>

theorem recordImpression_defaults:
  "fst (recordImpression s now w outcome postId userId md) = makeImpression now w postId userId md
   \<and> impressionsOf (snd (recordImpression s now w outcome postId userId md)) userId
       = impressionsOf s userId @ [fst (recordImpression s now w outcome postId userId md)]
   \<and> (md ''viewDuration'' = None \<longrightarrow>
        getProp (fst (recordImpression s now w outcome postId userId md)) ''viewDuration'' = JNum 0)
   \<and> (md ''scrollDepth'' = None \<longrightarrow>
        getProp (fst (recordImpression s now w outcome postId userId md)) ''scrollDepth'' = JNum 0)
   \<and> (md ''inViewport'' = None \<longrightarrow>
        getProp (fst (recordImpression s now w outcome postId userId md)) ''inViewport'' = JBool True)"
  by (simp add: recordImpression_def Let_def impressionsOf_def pushFor_lookup makeImpression_def
      getProp_def orElse_def map_add_def)

theorem recordImpression_defaults_witness:
  "getProp (fst (recordImpression newEngine 1000 800 FetchRejected ''p1'' ''u1'' Map.empty)) ''viewDuration'' = JNum 0
   \<and> getProp (fst (recordImpression newEngine 1000 800 FetchRejected ''p1'' ''u1'' Map.empty)) ''scrollDepth'' = JNum 0
   \<and> getProp (fst (recordImpression newEngine 1000 800 FetchRejected ''p1'' ''u1'' Map.empty)) ''inViewport'' = JBool True
   \<and> impressionsOf (snd (recordImpression newEngine 1000 800 FetchRejected ''p1'' ''u1'' Map.empty)) ''u1''
       = [fst (recordImpression newEngine 1000 800 FetchRejected ''p1'' ''u1'' Map.empty)]"
proof -
  have e: "impressionsOf newEngine ''u1'' = []"
    by (simp add: impressionsOf_def newEngine_def)
  from recordImpression_defaults [of newEngine 1000 800 FetchRejected "''p1''" "''u1''" Map.empty]
  show ?thesis unfolding e by auto
qed

text \<open>
  C4 as stated fails: a call with empty metadata, where \<^verbatim>\<open>inViewport\<close> is absent, returns
  an impression whose \<^verbatim>\<open>inViewport\<close> is not false.
\<close>

theorem inViewport_default_counterexample:
  "Map.empty ''inViewport'' = None
   \<and> getProp (fst (recordImpression newEngine 1000 800 (FetchResponse 200 True) ''p1'' ''u1'' Map.empty))
        ''inViewport'' \<noteq> JBool False"
  by (simp add: recordImpression_def Let_def makeImpression_def getProp_def map_add_def)

text \<open>
  C9. Whatever the \<^verbatim>\<open>fetch\<close> of the persistence call does (rejection, a status that is
  not ok, a body that does not parse), \<^verbatim>\<open>recordImpression\<close> and \<^verbatim>\<open>recordEngagement\<close>
  return the same event and leave the same in-memory lists as when persistence succeeds, and
  the returned event is the last element of the user's list.
\<close>

theorem persistence_failure_swallowed:
  "fst (recordImpression s now w outcome postId userId md)
     = fst (recordImpression s now w (FetchResponse 200 True) postId userId md)
   \<and> userImpressions (snd (recordImpression s now w outcome postId userId md))
     = userImpressions (snd (recordImpression s now w (FetchResponse 200 True) postId userId md))
   \<and> impressionsOf (snd (recordImpression s now w outcome postId userId md)) userId
     = impressionsOf s userId @ [fst (recordImpression s now w outcome postId userId md)]
   \<and> fst (recordEngagement s now outcome postId userId ty md)
     = fst (recordEngagement s now (FetchResponse 200 True) postId userId ty md)
   \<and> userEngagements (snd (recordEngagement s now outcome postId userId ty md))
     = userEngagements (snd (recordEngagement s now (FetchResponse 200 True) postId userId ty md))
   \<and> engagementsOf (snd (recordEngagement s now outcome postId userId ty md)) userId
     = engagementsOf s userId @ [fst (recordEngagement s now outcome postId userId ty md)]"
  by (simp add: recordImpression_def recordEngagement_def Let_def impressionsOf_def
      engagementsOf_def pushFor_lookup)

text \<open>
  C10. The metadata is spread last: every key of the metadata (so also \<^verbatim>\<open>postId\<close>,
  \<^verbatim>\<open>userId\<close>, \<^verbatim>\<open>timestamp\<close>, \<^verbatim>\<open>type\<close>, \<^verbatim>\<open>viewDuration\<close>, \<^verbatim>\<open>scrollDepth\<close>,
  \<^verbatim>\<open>inViewport\<close>, \<^verbatim>\<open>deviceType\<close>) has the metadata's value in the returned event and
  in the stored one, for \<^verbatim>\<open>recordImpression\<close> and for \<^verbatim>\<open>recordEngagement\<close>.
\<close>

theorem metadata_overrides:
  "md k = Some v \<Longrightarrow>
     fst (recordImpression s now w outcome postId userId md) k = Some v
   \<and> last (impressionsOf (snd (recordImpression s now w outcome postId userId md)) userId) k = Some v
   \<and> fst (recordEngagement s now outcome postId userId ty md) k = Some v
   \<and> last (engagementsOf (snd (recordEngagement s now outcome postId userId ty md)) userId) k = Some v"
  by (simp add: recordImpression_def recordEngagement_def Let_def impressionsOf_def
      engagementsOf_def pushFor_lookup makeImpression_def makeEngagement_def map_add_def)

theorem metadata_overrides_witness:
  "fst (recordImpression newEngine 1000 800 FetchRejected ''p1'' ''u1'' [''timestamp'' \<mapsto> JNum 5]) ''timestamp''
     = Some (JNum 5)
   \<and> fst (recordEngagement newEngine 1000 FetchRejected ''p1'' ''u1'' (JStr ''like'') [''postId'' \<mapsto> JStr ''p9'']) ''postId''
     = Some (JStr ''p9'')"
  using metadata_overrides [of "[''timestamp'' \<mapsto> JNum 5]" "''timestamp''" "JNum 5" newEngine 1000 800 FetchRejected "''p1''" "''u1''" "JStr ''like''"]
    metadata_overrides [of "[''postId'' \<mapsto> JStr ''p9'']" "''postId''" "JStr ''p9''" newEngine 1000 800 FetchRejected "''p1''" "''u1''" "JStr ''like''"]
  by simp

subsection \<open>Histories with string postIds\<close>

text \<open>
  A new engine has only string postIds in its engagement lists, and the methods keep it so
  as long as no metadata puts a value that is not a string under \<^verbatim>\<open>postId\<close>.
\<close>

lemma newEngine_typed: "stringPostIds (engagementsOf newEngine userId)"
  by (simp add: stringPostIds_def engagementsOf_def newEngine_def)

lemma makeEngagement_postId:
  "md ''postId'' = None \<Longrightarrow>
   getProp (makeEngagement now postId userId ty md) ''postId'' = JStr postId"
  "md ''postId'' = Some v \<Longrightarrow>
   getProp (makeEngagement now postId userId ty md) ''postId'' = v"
  by (simp_all add: makeEngagement_def getProp_def map_add_def)

lemma recordEngagement_typed:
  assumes typed: "stringPostIds (engagementsOf s u)"
    and md: "md ''postId'' = None \<or> (\<exists>str. md ''postId'' = Some (JStr str))"
  shows "stringPostIds (engagementsOf (snd (recordEngagement s now outcome postId userId ty md)) u)"
proof (cases "u = userId")
  case True
  from md have "\<exists>str. getProp (makeEngagement now postId userId ty md) ''postId'' = JStr str"
    by (auto simp: makeEngagement_postId)
  with typed True show ?thesis
    by (auto simp: recordEngagement_def Let_def engagementsOf_def pushFor_lookup
        stringPostIds_def)
next
  case False
  with typed show ?thesis
    by (simp add: recordEngagement_def Let_def engagementsOf_def pushFor_other)
qed

lemma recordImpression_engagements:
  "engagementsOf (snd (recordImpression s now w outcome postId userId md)) u = engagementsOf s u"
  by (simp add: recordImpression_def Let_def engagementsOf_def)

lemma generateFeed_engagements:
  "generateFeed s now allPosts userId prefs = Inr (f, s') \<Longrightarrow>
   engagementsOf s' u = engagementsOf s u"
  by (auto simp: generateFeed_def Let_def engagementsOf_def split: option.splits sum.splits if_splits)

subsection \<open>The example data\<close>

lemma exampleEngine_engagements:
  "engagementsOf exampleEngine ''u1'' = [makeEngagement 0 ''anon1_7'' ''u1'' (JStr ''like'') Map.empty]"
  by (simp add: exampleEngine_def recordImpression_def recordEngagement_def Let_def
      engagementsOf_def pushFor_lookup newEngine_def)

lemma exampleEngine_impressions:
  "impressionsOf exampleEngine ''u1'' = [makeImpression 0 800 ''p1'' ''u1'' Map.empty]"
  by (simp add: exampleEngine_def recordImpression_def recordEngagement_def Let_def
      impressionsOf_def pushFor_lookup newEngine_def)

lemma exampleEngine_diversity:
  "calculateDiversityScore exampleEngine examplePost ''u1'' = Inr (10 / 11)"
  by (simp add: calculateDiversityScore_def exampleEngine_engagements makeEngagement_def
      getProp_def examplePost_def)

lemma exampleEngine_impressionScore:
  "calculateImpressionScore exampleEngine examplePost ''u1'' = 0.95"
  by (simp add: calculateImpressionScore_def exampleEngine_impressions makeImpression_def
      getProp_def examplePost_def impressionDecayFactor_def)

lemma examplePost_engagementScore: "calculateEngagementScore examplePost = 5 / 4"
  by (simp add: calculateEngagementScore_def examplePost_def likesOf_def repostsOf_def
      repliesOf_def)

lemma examplePost_recencyScore: "calculateRecencyScore 0 examplePost = 1"
  by (simp add: calculateRecencyScore_def ageInHours_def examplePost_def)

subsection \<open>Scoring\<close>

text \<open>
  C1. \<^verbatim>\<open>calculatePostScore\<close> is the engagement score times 0.6 plus the recency score
  times 0.3 plus the diversity score times 0.1; the impression score, although computed,
  adds nothing; the sum is multiplied by 1.2 when \<^verbatim>\<open>preferences.boostRecent\<close> is truthy.
  The only way it can fail is the TypeError of the diversity score, which it passes on.
\<close>

theorem calculatePostScore_formula:
  "calculatePostScore s now p userId userPreferences =
     (case calculateDiversityScore s p userId of
        Inl err \<Rightarrow> Inl err
      | Inr d \<Rightarrow>
          Inr ((calculateEngagementScore p * 0.6 + calculateRecencyScore now p * 0.3 + d * 0.1)
               * (if truthy (getProp userPreferences ''boostRecent'') then 1.2 else 1)))"
  by (simp add: calculatePostScore_def Let_def engagementWeight_def recencyWeight_def
      diversityWeight_def split: sum.splits)

theorem calculatePostScore_formula_witness:
  "calculatePostScore exampleEngine 0 examplePost ''u1'' Map.empty = Inr (0.75 + 0.3 + 1 / 11)
   \<and> calculatePostScore exampleEngine 0 examplePost ''u1'' [''boostRecent'' \<mapsto> JBool True]
       = Inr ((0.75 + 0.3 + 1 / 11) * 1.2)"
  using calculatePostScore_formula [of exampleEngine 0 examplePost "''u1''" Map.empty]
    calculatePostScore_formula [of exampleEngine 0 examplePost "''u1''" "[''boostRecent'' \<mapsto> JBool True]"]
  by (simp add: exampleEngine_diversity examplePost_engagementScore examplePost_recencyScore
      getProp_def)

subsection \<open>Popularity\<close>

lemma popularity_chain:
  fixes r :: real
  shows "(if r > 0.1 then Viral else if r > 0.05 then Trending
          else if r > 0.02 then Popular else Normal)
       = (if r > 0.10 then Viral
          else if 0.05 < r \<and> r \<le> 0.10 then Trending
          else if 0.02 < r \<and> r \<le> 0.05 then Popular
          else Normal)"
  by (cases "r > 0.1"; cases "r > 0.05"; cases "r > 0.02"; simp)

lemma impressionsOr1_max: "real (impressionsOr1 p) = max 1 (real (impressionCount p))"
  by (simp add: impressionsOr1_def max_def)

text \<open>
  C8. \<^verbatim>\<open>getPostPopularity\<close> takes the post alone (no engine state goes in or comes out).
  With likes, reposts and replies the counters of the post's \<^verbatim>\<open>engagementCount\<close> (all 0 when
  the post has none), it computes rate = (likes + reposts + replies) / max(1, impressionCount)
  and answers viral above 0.10, trending in (0.05, 0.10], popular in (0.02, 0.05] and normal
  otherwise; two posts with the same counters get the same answer.
\<close>

theorem getPostPopularity_thresholds:
  "getPostPopularity p =
     (let total = (case engagementCount p of
                     None \<Rightarrow> 0
                   | Some c \<Rightarrow> likes c + reposts c + replies c);
          rate = real total / max 1 (real (impressionCount p))
      in if rate > 0.10 then Viral
         else if 0.05 < rate \<and> rate \<le> 0.10 then Trending
         else if 0.02 < rate \<and> rate \<le> 0.05 then Popular
         else Normal)
   \<and> (\<forall>q. engagementCount q = engagementCount p \<and> impressionCount q = impressionCount p
          \<longrightarrow> getPostPopularity q = getPostPopularity p)"
proof (rule conjI)
  have total: "likesOf p + repostsOf p + repliesOf p
        = (case engagementCount p of None \<Rightarrow> 0 | Some c \<Rightarrow> likes c + reposts c + replies c)"
    by (cases "engagementCount p") (simp_all add: likesOf_def repostsOf_def repliesOf_def)
  show "getPostPopularity p =
     (let total = (case engagementCount p of
                     None \<Rightarrow> 0
                   | Some c \<Rightarrow> likes c + reposts c + replies c);
          rate = real total / max 1 (real (impressionCount p))
      in if rate > 0.10 then Viral
         else if 0.05 < rate \<and> rate \<le> 0.10 then Trending
         else if 0.02 < rate \<and> rate \<le> 0.05 then Popular
         else Normal)"
    unfolding getPostPopularity_def Let_def impressionsOr1_max total
    by (rule popularity_chain)
next
  show "\<forall>q. engagementCount q = engagementCount p \<and> impressionCount q = impressionCount p
          \<longrightarrow> getPostPopularity q = getPostPopularity p"
    by (simp add: getPostPopularity_def impressionsOr1_def likesOf_def repostsOf_def repliesOf_def)
qed

theorem getPostPopularity_thresholds_witness:
  "getPostPopularity repostedPost = Viral
   \<and> getPostPopularity examplePost = Trending
   \<and> getPostPopularity repliedPost = Popular
   \<and> getPostPopularity barePost = Normal
   \<and> getPostPopularity (repostedPost\<lparr>post_id := ''p2'', createdAt := 77\<rparr>) = Viral"
proof -
  have a: "getPostPopularity repostedPost = Viral"
    using getPostPopularity_thresholds [of repostedPost, THEN conjunct1]
    by (simp add: repostedPost_def Let_def)
  have b: "getPostPopularity examplePost = Trending"
    using getPostPopularity_thresholds [of examplePost, THEN conjunct1]
    by (simp add: examplePost_def Let_def)
  have c: "getPostPopularity repliedPost = Popular"
    using getPostPopularity_thresholds [of repliedPost, THEN conjunct1]
    by (simp add: repliedPost_def Let_def)
  have d: "getPostPopularity barePost = Normal"
    using getPostPopularity_thresholds [of barePost, THEN conjunct1]
    by (simp add: barePost_def Let_def)
  have e: "getPostPopularity (repostedPost\<lparr>post_id := ''p2'', createdAt := 77\<rparr>)
           = getPostPopularity repostedPost"
    by (rule getPostPopularity_thresholds [of repostedPost, THEN conjunct2, THEN spec, THEN mp]) simp
  from a b c d e show ?thesis by simp
qed

subsection \<open>The feed cache\<close>

lemma generateFeed_hit:
  "feedCache s (''feed_'' @ userId) = Some cached \<Longrightarrow>
   now - timestamp cached < 3600000 \<Longrightarrow>
   generateFeed s now allPosts userId userPreferences = Inr (feed cached, s)"
  by (simp add: generateFeed_def Let_def impressionCacheTTL_def)

text \<open>
  C3. When the cache holds an entry for the user that is less than 3600000 ms old,
  \<^verbatim>\<open>generateFeed\<close> returns the cached list as it is and leaves the engine unchanged,
  whatever posts and preferences are passed.
\<close>

theorem generateFeed_cache_hit:
  "feedCache s (''feed_'' @ userId) = Some cached \<Longrightarrow>
   now - timestamp cached < 3600000 \<Longrightarrow>
   generateFeed s now allPosts userId userPreferences = Inr (feed cached, s)"
  by (simp add: generateFeed_def Let_def impressionCacheTTL_def)

theorem generateFeed_cache_hit_witness:
  "generateFeed cachedEngine 2000 [] ''u1'' [''boostRecent'' \<mapsto> JBool True]
     = Inr ([\<lparr>base = examplePost, score = 1\<rparr>], cachedEngine)"
  using generateFeed_cache_hit [of cachedEngine "''u1''"
      "\<lparr>feed = [\<lparr>base = examplePost, score = 1\<rparr>], timestamp = 1000\<rparr>" 2000 "[]"
      "[''boostRecent'' \<mapsto> JBool True]"]
  by (simp add: cachedEngine_def)

text \<open>
  A call that missed the cache stores its result, so a second call less than 3600000 ms
  later returns the same list for any posts and preferences.
\<close>

lemma generateFeed_repeat:
  assumes miss: "case feedCache s (''feed_'' @ userId) of
                   None \<Rightarrow> True | Some c \<Rightarrow> \<not> (t0 - timestamp c < 3600000)"
    and first: "generateFeed s t0 allPosts userId prefs = Inr (f, s1)"
    and within: "t1 - t0 < 3600000"
  shows "generateFeed s1 t1 allPosts' userId prefs' = Inr (f, s1)"
proof -
  from miss first have "feedCache s1 (''feed_'' @ userId) = Some \<lparr>feed = f, timestamp = t0\<rparr>"
    by (auto simp: generateFeed_def Let_def impressionCacheTTL_def
        split: option.splits sum.splits if_splits)
  from generateFeed_hit [OF this] within show ?thesis by simp
qed

subsection \<open>Recommendations\<close>

text \<open>
  C6. For a user without recorded engagements (no list, or an empty one)
  \<^verbatim>\<open>getRecommendedPosts\<close> returns what \<^verbatim>\<open>getTrendingPosts\<close> returns for the same posts
  and limit.
\<close>

theorem coldStart_is_trending:
  "engagementsOf s userId = [] \<Longrightarrow>
   getRecommendedPosts s now allPosts userId limit
     = Inr (TrendingPosts (getTrendingPosts now allPosts limit))"
  by (simp add: getRecommendedPosts_def Let_def)

theorem coldStart_is_trending_witness:
  "getRecommendedPosts newEngine 0 [examplePost] ''u1'' 10
     = Inr (TrendingPosts (getTrendingPosts 0 [examplePost] 10))"
  using coldStart_is_trending [of newEngine "''u1''" 0 "[examplePost]" 10]
  by (simp add: engagementsOf_def newEngine_def)

subsection \<open>Feed length\<close>

lemma exampleEngine_cache: "\<not> cacheValid exampleEngine now ''u1''"
  by (simp add: cacheValid_def exampleEngine_def recordImpression_def recordEngagement_def
      Let_def newEngine_def)

lemma exampleEngine_typed: "stringPostIds (engagementsOf exampleEngine ''u1'')"
  by (simp add: exampleEngine_engagements stringPostIds_def makeEngagement_def getProp_def)

lemma generateFeed_length_typed:
  assumes miss: "\<not> cacheValid s now userId"
    and typed: "allPosts = [] \<or> stringPostIds (engagementsOf s userId)"
  shows "\<exists>f s'. generateFeed s now allPosts userId prefs = Inr (f, s')
           \<and> length f = min (length allPosts) 50"
proof -
  let ?score = "\<lambda>p. case calculatePostScore s now p userId prefs of
                        Inl err \<Rightarrow> Inl err
                      | Inr sc \<Rightarrow> Inr \<lparr>base = p, score = sc\<rparr>"
  have "\<exists>ys. mapE ?score allPosts = Inr ys"
  proof (rule mapE_total)
    fix p assume "p \<in> set allPosts"
    with typed have "stringPostIds (engagementsOf s userId)" by auto
    from calculatePostScore_total [OF this] obtain sc where
      "calculatePostScore s now p userId prefs = Inr sc" by blast
    then show "\<exists>y. ?score p = Inr y" by simp
  qed
  then obtain ys where ys: "mapE ?score allPosts = Inr ys" by blast
  then have len: "length ys = length allPosts" by (rule mapE_length)
  from miss have hit: "(case feedCache s (''feed_'' @ userId) of
                   None \<Rightarrow> None
                 | Some cached \<Rightarrow>
                     if now - timestamp cached < impressionCacheTTL then Some (feed cached)
                     else None) = None"
    by (cases "feedCache s (''feed_'' @ userId)") (simp_all add: cacheValid_def)
  have "generateFeed s now allPosts userId prefs
          = Inr (slice0 maxFeedSize (sortByDesc score ys),
                 s\<lparr>feedCache := (feedCache s)(''feed_'' @ userId \<mapsto>
                      \<lparr>feed = slice0 maxFeedSize (sortByDesc score ys), timestamp = now\<rparr>)\<rparr>)"
    unfolding generateFeed_def Let_def hit by (simp add: ys)
  moreover have "length (slice0 maxFeedSize (sortByDesc score ys)) = min (length allPosts) 50"
    by (simp add: slice0_length sortByDesc_length maxFeedSize_def len)
  ultimately show ?thesis by blast
qed

lemma generateFeed_untyped:
  assumes miss: "\<not> cacheValid s now userId"
    and posts: "allPosts \<noteq> []"
    and untyped: "\<not> stringPostIds (engagementsOf s userId)"
  shows "generateFeed s now allPosts userId prefs = Inl TypeError"
proof -
  from miss have hit: "(case feedCache s (''feed_'' @ userId) of
                   None \<Rightarrow> None
                 | Some cached \<Rightarrow>
                     if now - timestamp cached < impressionCacheTTL then Some (feed cached)
                     else None) = None"
    by (cases "feedCache s (''feed_'' @ userId)") (simp_all add: cacheValid_def)
  have "mapE (\<lambda>p. case calculatePostScore s now p userId prefs of
                     Inl err \<Rightarrow> Inl err
                   | Inr sc \<Rightarrow> Inr \<lparr>base = p, score = sc\<rparr>) allPosts = Inl TypeError"
    using posts by (rule mapE_first_fails) (simp add: calculatePostScore_untyped [OF untyped])
  then show ?thesis
    unfolding generateFeed_def Let_def hit by simp
qed

lemma badEngine_engagements:
  "engagementsOf badEngine ''u1''
     = [makeEngagement 0 ''p1'' ''u1'' (JStr ''like'') [''postId'' \<mapsto> JNum 5]]"
  by (simp add: badEngine_def recordEngagement_def Let_def engagementsOf_def pushFor_lookup
      newEngine_def)

lemma badEngine_postId:
  "getProp (makeEngagement 0 ''p1'' ''u1'' (JStr ''like'') [''postId'' \<mapsto> JNum 5]) ''postId''
     = JNum 5"
  by (simp add: makeEngagement_def getProp_def)

lemma badEngine_untyped: "\<not> stringPostIds (engagementsOf badEngine ''u1'')"
  by (simp add: badEngine_engagements stringPostIds_def badEngine_postId)

lemma badEngine_cache: "\<not> cacheValid badEngine now ''u1''"
  by (simp add: cacheValid_def badEngine_def recordEngagement_def Let_def newEngine_def)

lemma badEngine_feedCache: "feedCache badEngine k = None"
  by (simp add: badEngine_def recordEngagement_def Let_def newEngine_def)

lemma badEngine_score:
  "calculatePostScore badEngine now p ''u1'' prefs = Inl TypeError"
  by (simp add: calculatePostScore_def Let_def calculateDiversityScore_def
      badEngine_engagements badEngine_postId)

text \<open>
  C5 as stated fails. After \<^verbatim>\<open>recordEngagement('p1', 'u1', 'like', {postId: 5})\<close> user
  \<^verbatim>\<open>u1\<close> has no cache entry, and \<^verbatim>\<open>generateFeed\<close> for one post returns no list: scoring
  the post calls \<^verbatim>\<open>startsWith\<close> on the number 5 and throws.
\<close>

theorem generateFeed_length_counterexample:
  "\<not> cacheValid badEngine 0 ''u1''
   \<and> generateFeed badEngine 0 [examplePost] ''u1'' Map.empty = Inl TypeError"
proof -
  have "generateFeed badEngine 0 [examplePost] ''u1'' Map.empty = Inl TypeError"
    by (simp add: generateFeed_def Let_def badEngine_feedCache badEngine_score)
  with badEngine_cache show ?thesis by simp
qed

text \<open>
  C5, as the code has it. Let the user have no cache entry that is still valid. When the
  collection is empty or every recorded engagement of the user carries a string postId,
  \<^verbatim>\<open>generateFeed\<close> returns a list of length min(|allPosts|, 50), the empty list for an
  empty collection. Otherwise (a collection that is not empty, and a recorded engagement of
  the user whose postId is not a string) it throws a TypeError.
\<close>

theorem generateFeed_length:
  assumes miss: "\<not> cacheValid s now userId"
  shows "(allPosts = [] \<or> stringPostIds (engagementsOf s userId) \<longrightarrow>
            (\<exists>f s'. generateFeed s now allPosts userId prefs = Inr (f, s')
               \<and> length f = min (length allPosts) 50))
       \<and> (allPosts \<noteq> [] \<and> \<not> stringPostIds (engagementsOf s userId) \<longrightarrow>
            generateFeed s now allPosts userId prefs = Inl TypeError)"
  using generateFeed_length_typed [OF miss] generateFeed_untyped [OF miss] by blast

theorem generateFeed_length_witness:
  "(\<exists>f s'. generateFeed exampleEngine 0 [examplePost] ''u1'' Map.empty = Inr (f, s')
            \<and> length f = 1)
   \<and> (\<exists>f s'. generateFeed exampleEngine 0 (replicate 51 examplePost) ''u1'' Map.empty = Inr (f, s')
            \<and> length f = 50)
   \<and> (\<exists>f s'. generateFeed badEngine 0 [] ''u1'' Map.empty = Inr (f, s') \<and> length f = 0)
   \<and> generateFeed badEngine 0 [examplePost, repostedPost] ''u1'' Map.empty = Inl TypeError"
proof -
  from generateFeed_length [of exampleEngine 0 "''u1''" "[examplePost]" Map.empty]
    generateFeed_length [of exampleEngine 0 "''u1''" "replicate 51 examplePost" Map.empty]
    generateFeed_length [of badEngine 0 "''u1''" "[]" Map.empty]
    generateFeed_length [of badEngine 0 "''u1''" "[examplePost, repostedPost]" Map.empty]
    exampleEngine_typed exampleEngine_cache badEngine_untyped badEngine_cache
  show ?thesis by simp
qed

subsection \<open>A fresh post against an old one\<close>

lemma exp_minus_two: "exp (- 2 :: real) < 2 / 3"
proof -
  have "(1::real) + 2 \<le> exp 2" by (rule exp_ge_add_one_self)
  then have "inverse (exp (2::real)) \<le> inverse 3"
    by (intro le_imp_inverse_le) simp_all
  then show ?thesis by (simp add: exp_minus)
qed

lemma outranks_typed:
  assumes A: "createdAt A = now"
      "engagementCount A = Some \<lparr>likes = 100, reposts = 0, replies = 0\<rparr>"
      "impressionCount A = 1000"
    and B: "createdAt B = now - 48 * 3600000"
      "engagementCount B = Some \<lparr>likes = 10, reposts = 0, replies = 0\<rparr>"
      "impressionCount B = 50"
    and typed: "stringPostIds (engagementsOf s userId)"
  shows "calculateEngagementScore A = 1 \<and> calculateEngagementScore B = 1
       \<and> calculateRecencyScore now A = 1 \<and> calculateRecencyScore now B = exp (- 2)
       \<and> (\<exists>dA dB. 0 < dA \<and> dA \<le> 1 \<and> 0 < dB \<and> dB \<le> 1
            \<and> calculatePostScore s now A userId Map.empty = Inr (0.9 + 0.1 * dA)
            \<and> calculatePostScore s now B userId Map.empty = Inr (0.6 + 0.3 * exp (- 2) + 0.1 * dB)
            \<and> 0.6 + 0.3 * exp (- 2) + 0.1 * dB < 0.9 + 0.1 * dA)
       \<and> (\<exists>a b. calculatePostScore s now A userId prefs = Inr a
            \<and> calculatePostScore s now B userId prefs = Inr b \<and> b < a)"
proof -
  have eA: "calculateEngagementScore A = 1"
    by (simp add: calculateEngagementScore_def likesOf_def repostsOf_def repliesOf_def A)
  have eB: "calculateEngagementScore B = 1"
    by (simp add: calculateEngagementScore_def likesOf_def repostsOf_def repliesOf_def B)
  have rA: "calculateRecencyScore now A = 1"
    by (simp add: calculateRecencyScore_def ageInHours_def A)
  have rB: "calculateRecencyScore now B = exp (- 2)"
    by (simp add: calculateRecencyScore_def ageInHours_def B)
  from diversity_total [OF typed] obtain dA where
    dA: "calculateDiversityScore s A userId = Inr dA" "0 < dA" "dA \<le> 1" by blast
  from diversity_total [OF typed] obtain dB where
    dB: "calculateDiversityScore s B userId = Inr dB" "0 < dB" "dB \<le> 1" by blast
  define m :: real where "m = (if truthy (getProp prefs ''boostRecent'') then 1.2 else 1)"
  have m: "0 < m" by (simp add: m_def)
  have sA: "calculatePostScore s now A userId prefs = Inr ((0.9 + 0.1 * dA) * m)"
    by (simp add: calculatePostScore_def Let_def dA eA rA engagementWeight_def
        recencyWeight_def diversityWeight_def m_def)
  have sB: "calculatePostScore s now B userId prefs = Inr ((0.6 + 0.3 * exp (- 2) + 0.1 * dB) * m)"
    by (simp add: calculatePostScore_def Let_def dB eB rB engagementWeight_def
        recencyWeight_def diversityWeight_def m_def)
  have sA0: "calculatePostScore s now A userId Map.empty = Inr (0.9 + 0.1 * dA)"
    by (simp add: calculatePostScore_def Let_def dA eA rA engagementWeight_def
        recencyWeight_def diversityWeight_def getProp_def)
  have sB0: "calculatePostScore s now B userId Map.empty = Inr (0.6 + 0.3 * exp (- 2) + 0.1 * dB)"
    by (simp add: calculatePostScore_def Let_def dB eB rB engagementWeight_def
        recencyWeight_def diversityWeight_def getProp_def)
  have lt: "0.6 + 0.3 * exp (- 2) + 0.1 * dB < 0.9 + 0.1 * dA"
    using exp_minus_two dA(2) dB(3) by simp
  then have ltm: "(0.6 + 0.3 * exp (- 2) + 0.1 * dB) * m < (0.9 + 0.1 * dA) * m"
    using m by (simp only: mult_less_cancel_right_pos)
  from dA dB sA0 sB0 lt
  have part: "\<exists>dA dB. 0 < dA \<and> dA \<le> 1 \<and> 0 < dB \<and> dB \<le> 1
            \<and> calculatePostScore s now A userId Map.empty = Inr (0.9 + 0.1 * dA)
            \<and> calculatePostScore s now B userId Map.empty = Inr (0.6 + 0.3 * exp (- 2) + 0.1 * dB)
            \<and> 0.6 + 0.3 * exp (- 2) + 0.1 * dB < 0.9 + 0.1 * dA"
    by blast
  from sA sB ltm
  have full: "\<exists>a b. calculatePostScore s now A userId prefs = Inr a
            \<and> calculatePostScore s now B userId prefs = Inr b \<and> b < a"
    by blast
  from eA eB rA rB part full show ?thesis by blast
qed

lemma postAB_fields:
  "createdAt postA = 172800000"
  "engagementCount postA = Some \<lparr>likes = 100, reposts = 0, replies = 0\<rparr>"
  "impressionCount postA = 1000"
  "createdAt postB = 172800000 - 48 * 3600000"
  "engagementCount postB = Some \<lparr>likes = 10, reposts = 0, replies = 0\<rparr>"
  "impressionCount postB = 50"
  by (simp_all add: postA_def postB_def)

text \<open>
  C7 as stated fails on a history. After
  \<^verbatim>\<open>recordEngagement('p1', 'u1', 'like', {postId: 5})\<close> neither post A nor post B receives
  a score for user \<^verbatim>\<open>u1\<close>: \<^verbatim>\<open>calculatePostScore\<close> throws for both.
\<close>

theorem fresh_post_outranks_old_counterexample:
  "createdAt postA = 172800000
   \<and> engagementCount postA = Some \<lparr>likes = 100, reposts = 0, replies = 0\<rparr>
   \<and> impressionCount postA = 1000
   \<and> createdAt postB = 172800000 - 48 * 3600000
   \<and> engagementCount postB = Some \<lparr>likes = 10, reposts = 0, replies = 0\<rparr>
   \<and> impressionCount postB = 50
   \<and> calculatePostScore badEngine 172800000 postA ''u1'' Map.empty = Inl TypeError
   \<and> calculatePostScore badEngine 172800000 postB ''u1'' Map.empty = Inl TypeError"
  by (simp add: postAB_fields badEngine_score)

text \<open>
  C7, as the code has it. Post A is created at the time of scoring and has 100 likes, no
  reposts, no replies and 1000 impressions; post B is 48 hours old and has 10 likes, no
  reposts, no replies and 50 impressions. Both engagement scores are 1 and the recency scores
  are 1 and exp(-2). For every user and every history in which all recorded engagements of
  the user carry a string postId, the scores are 0.9 + 0.1 dA and 0.6 + 0.3 exp(-2) + 0.1 dB
  with diversity scores dA, dB in (0, 1], and A scores strictly higher than B, also with any
  preferences applied to both. For every other history \<^verbatim>\<open>calculatePostScore\<close> throws a
  TypeError for A and for B.
\<close>

theorem fresh_post_outranks_old:
  assumes A: "createdAt A = now"
      "engagementCount A = Some \<lparr>likes = 100, reposts = 0, replies = 0\<rparr>"
      "impressionCount A = 1000"
    and B: "createdAt B = now - 48 * 3600000"
      "engagementCount B = Some \<lparr>likes = 10, reposts = 0, replies = 0\<rparr>"
      "impressionCount B = 50"
  shows "calculateEngagementScore A = 1 \<and> calculateEngagementScore B = 1
       \<and> calculateRecencyScore now A = 1 \<and> calculateRecencyScore now B = exp (- 2)
       \<and> (stringPostIds (engagementsOf s userId) \<longrightarrow>
            (\<exists>dA dB. 0 < dA \<and> dA \<le> 1 \<and> 0 < dB \<and> dB \<le> 1
               \<and> calculatePostScore s now A userId Map.empty = Inr (0.9 + 0.1 * dA)
               \<and> calculatePostScore s now B userId Map.empty
                    = Inr (0.6 + 0.3 * exp (- 2) + 0.1 * dB)
               \<and> 0.6 + 0.3 * exp (- 2) + 0.1 * dB < 0.9 + 0.1 * dA)
            \<and> (\<exists>a b. calculatePostScore s now A userId prefs = Inr a
               \<and> calculatePostScore s now B userId prefs = Inr b \<and> b < a))
       \<and> (\<not> stringPostIds (engagementsOf s userId) \<longrightarrow>
            calculatePostScore s now A userId prefs = Inl TypeError
            \<and> calculatePostScore s now B userId prefs = Inl TypeError)"
proof -
  have eA: "calculateEngagementScore A = 1"
    by (simp add: calculateEngagementScore_def likesOf_def repostsOf_def repliesOf_def A)
  have eB: "calculateEngagementScore B = 1"
    by (simp add: calculateEngagementScore_def likesOf_def repostsOf_def repliesOf_def B)
  have rA: "calculateRecencyScore now A = 1"
    by (simp add: calculateRecencyScore_def ageInHours_def A)
  have rB: "calculateRecencyScore now B = exp (- 2)"
    by (simp add: calculateRecencyScore_def ageInHours_def B)
  have typed: "stringPostIds (engagementsOf s userId) \<longrightarrow>
            (\<exists>dA dB. 0 < dA \<and> dA \<le> 1 \<and> 0 < dB \<and> dB \<le> 1
               \<and> calculatePostScore s now A userId Map.empty = Inr (0.9 + 0.1 * dA)
               \<and> calculatePostScore s now B userId Map.empty
                    = Inr (0.6 + 0.3 * exp (- 2) + 0.1 * dB)
               \<and> 0.6 + 0.3 * exp (- 2) + 0.1 * dB < 0.9 + 0.1 * dA)
            \<and> (\<exists>a b. calculatePostScore s now A userId prefs = Inr a
               \<and> calculatePostScore s now B userId prefs = Inr b \<and> b < a)"
    using outranks_typed [OF A B, of s userId prefs] by blast
  have untyped: "\<not> stringPostIds (engagementsOf s userId) \<longrightarrow>
            calculatePostScore s now A userId prefs = Inl TypeError
            \<and> calculatePostScore s now B userId prefs = Inl TypeError"
    by (simp add: calculatePostScore_untyped)
  from eA eB rA rB typed untyped show ?thesis by blast
qed

theorem fresh_post_outranks_old_witness:
  "(\<exists>a b. calculatePostScore exampleEngine 172800000 postA ''u1'' Map.empty = Inr a
        \<and> calculatePostScore exampleEngine 172800000 postB ''u1'' Map.empty = Inr b \<and> b < a)
   \<and> calculateEngagementScore postA = 1 \<and> calculateEngagementScore postB = 1
   \<and> calculateRecencyScore 172800000 postA = 1
   \<and> calculateRecencyScore 172800000 postB = exp (- 2)
   \<and> calculatePostScore badEngine 172800000 postA ''u1'' [''boostRecent'' \<mapsto> JBool True]
        = Inl TypeError"
proof -
  from fresh_post_outranks_old [OF postAB_fields, of exampleEngine "''u1''" Map.empty]
    exampleEngine_typed
  have a: "\<exists>a b. calculatePostScore exampleEngine 172800000 postA ''u1'' Map.empty = Inr a
        \<and> calculatePostScore exampleEngine 172800000 postB ''u1'' Map.empty = Inr b \<and> b < a"
    and b: "calculateEngagementScore postA = 1" "calculateEngagementScore postB = 1"
      "calculateRecencyScore 172800000 postA = 1"
      "calculateRecencyScore 172800000 postB = exp (- 2)"
    by blast+
  from fresh_post_outranks_old [OF postAB_fields, of badEngine "''u1''"
      "[''boostRecent'' \<mapsto> JBool True]"] badEngine_untyped
  have c: "calculatePostScore badEngine 172800000 postA ''u1'' [''boostRecent'' \<mapsto> JBool True]
        = Inl TypeError"
    by blast
  from a b c show ?thesis by blast
qed

subsection \<open>Recommendations for a user with engagements\<close>

lemma cexEngine_engagements:
  "engagementsOf cexEngine ''u1''
     = [makeEngagement 0 ''p1'' ''u1'' (JStr ''like'') Map.empty,
        makeEngagement 0 ''p2'' ''u1'' (JStr ''like'') Map.empty]"
  by (simp add: cexEngine_def recordEngagement_def Let_def engagementsOf_def pushFor_lookup
      newEngine_def)

lemma cex_postIds:
  "getProp (makeEngagement 0 ''p1'' ''u1'' (JStr ''like'') Map.empty) ''postId'' = JStr ''p1''"
  "getProp (makeEngagement 0 ''p2'' ''u1'' (JStr ''like'') Map.empty) ''postId'' = JStr ''p2''"
  by (simp_all add: makeEngagement_def getProp_def)

lemma cex_candidates:
  "recommendedCandidates cexPosts (engagementsOf cexEngine ''u1'') = [cexP3, cexP4]"
  by (simp add: recommendedCandidates_def cexEngine_engagements cex_postIds Let_def cexPosts_def
      cexP1_def cexP2_def cexP3_def cexP4_def)

lemma cex_diversity:
  "calculateDiversityScore cexEngine cexP3 ''u1'' = Inr 1"
  "calculateDiversityScore cexEngine cexP4 ''u1'' = Inr 1"
  by (simp_all add: calculateDiversityScore_def cexEngine_engagements cex_postIds
      cexP3_def cexP4_def)

lemma postScore_unfold:
  "calculatePostScore s now p userId userPreferences =
     (case calculateDiversityScore s p userId of
        Inl err \<Rightarrow> Inl err
      | Inr d \<Rightarrow>
          Inr ((calculateEngagementScore p * 0.6 + calculateRecencyScore now p * 0.3 + d * 0.1)
               * (if truthy (getProp userPreferences ''boostRecent'') then 1.2 else 1)))"
  by (simp add: calculatePostScore_def Let_def engagementWeight_def recencyWeight_def
      diversityWeight_def split: sum.splits)

lemma cex_parts:
  "calculateEngagementScore cexP3 = 1" "calculateRecencyScore 0 cexP3 = 1"
  "calculateEngagementScore cexP4 = 3" "calculateRecencyScore 0 cexP4 = 1"
  by (simp_all add: calculateEngagementScore_def calculateRecencyScore_def ageInHours_def
      likesOf_def repostsOf_def repliesOf_def cexP3_def cexP4_def)

lemma cex_scores:
  "calculatePostScore cexEngine 0 cexP3 ''u1'' Map.empty = Inr 1"
  "calculatePostScore cexEngine 0 cexP4 ''u1'' Map.empty = Inr (11 / 5)"
  by (simp_all add: postScore_unfold cex_diversity cex_parts getProp_def)

lemma candidates_alt:
  "recommendedCandidates allPosts es =
     filter (\<lambda>p. JStr (post_id p) \<notin> set (map (\<lambda>e. getProp e ''postId'') es)
                \<and> displayName p \<noteq> firstEngagedName allPosts es) allPosts"
  by (simp add: recommendedCandidates_def firstEngagedName_def Let_def)

lemma sortByDesc_set: "set (sortByDesc k xs) = set xs"
  by (simp add: sortByDesc_def)

lemma sortByDesc_sorted: "sorted_wrt (\<lambda>a b. k b \<le> k a) (sortByDesc k xs)"
proof -
  have "sorted (map (\<lambda>x. - k x) (sort_key (\<lambda>x. - k x) xs))"
    by (rule sorted_sort_key)
  then show ?thesis by (simp add: sortByDesc_def sorted_map)
qed

lemma mapE_preimage:
  "mapE g xs = Inr ys \<Longrightarrow> r \<in> set ys \<Longrightarrow> \<exists>p. p \<in> set xs \<and> g p = Inr r"
proof (induction xs arbitrary: ys)
  case Nil
  then show ?case by simp
next
  case (Cons x xs)
  from Cons.prems(1) obtain y zs where
    y: "g x = Inr y" and zs: "mapE g xs = Inr zs" and ys: "ys = y # zs"
    by (auto split: sum.splits)
  show ?case
  proof (cases "r = y")
    case True
    with y show ?thesis by auto
  next
    case False
    with Cons.prems(2) ys have "r \<in> set zs" by simp
    from Cons.IH [OF zs this] show ?thesis by auto
  qed
qed

lemma mapE_scored:
  assumes "mapE (\<lambda>p. case f p of Inl err \<Rightarrow> Inl err
                     | Inr sc \<Rightarrow> Inr \<lparr>base = p, score = sc\<rparr>) xs = Inr ys"
    and "r \<in> set ys"
  shows "base r \<in> set xs \<and> f (base r) = Inr (score r)"
proof -
  from mapE_preimage [OF assms]
  obtain p where p: "p \<in> set xs"
      "(case f p of Inl err \<Rightarrow> Inl err | Inr sc \<Rightarrow> Inr \<lparr>base = p, score = sc\<rparr>) = Inr r"
    by blast
  then show ?thesis by (auto split: sum.splits)
qed

text \<open>
  C2 as stated fails. User \<^verbatim>\<open>u1\<close> liked \<^verbatim>\<open>p1\<close> (by Ann) and then \<^verbatim>\<open>p2\<close> (by Bob);
  with limit 1 the code returns \<^verbatim>\<open>p3\<close>, a post by Bob, the author of the most recent
  engagement, with score 1, although \<^verbatim>\<open>p4\<close> passes the code's own filter and scores 11/5.
  The specification's reading returns \<^verbatim>\<open>p4\<close>.
\<close>

theorem getRecommendedPosts_counterexample:
  "getRecommendedPosts cexEngine 0 cexPosts ''u1'' 1 = Inr (ScoredPosts [\<lparr>base = cexP3, score = 1\<rparr>])
   \<and> getProp (last (engagementsOf cexEngine ''u1'')) ''postId'' = JStr (post_id cexP2)
   \<and> displayName cexP3 = displayName cexP2
   \<and> recommendedCandidates cexPosts (engagementsOf cexEngine ''u1'') = [cexP3, cexP4]
   \<and> calculatePostScore cexEngine 0 cexP4 ''u1'' Map.empty = Inr (11 / 5)
   \<and> recommendedPosts_asSpecified cexEngine 0 cexPosts ''u1'' 1
       = Inr (ScoredPosts [\<lparr>base = cexP4, score = 11 / 5\<rparr>])"
proof -
  have a: "getRecommendedPosts cexEngine 0 cexPosts ''u1'' 1
             = Inr (ScoredPosts [\<lparr>base = cexP3, score = 1\<rparr>])"
    unfolding getRecommendedPosts_def Let_def cex_candidates
    by (simp add: cexEngine_engagements slice0_def cex_scores sortByDesc_def)
  have b: "getProp (last (engagementsOf cexEngine ''u1'')) ''postId'' = JStr (post_id cexP2)"
    by (simp add: cexEngine_engagements cex_postIds cexP2_def)
  have c: "displayName cexP3 = displayName cexP2"
    by (simp add: cexP3_def cexP2_def)
  have cand: "filter (\<lambda>p. JStr (post_id p) \<notin> set (map (\<lambda>e. getProp e ''postId'') (engagementsOf cexEngine ''u1''))
                \<and> displayName p \<noteq>
                   (case filter (\<lambda>p. JStr (post_id p) = getProp (last (engagementsOf cexEngine ''u1'')) ''postId'') cexPosts of
                      [] \<Rightarrow> JUndefined | p # ps \<Rightarrow> displayName p)) cexPosts = [cexP4]"
    by (simp add: cexEngine_engagements cex_postIds cexPosts_def cexP1_def cexP2_def cexP3_def
        cexP4_def)
  have d: "recommendedPosts_asSpecified cexEngine 0 cexPosts ''u1'' 1
             = Inr (ScoredPosts [\<lparr>base = cexP4, score = 11 / 5\<rparr>])"
    unfolding recommendedPosts_asSpecified_def Let_def cand
    by (simp add: cexEngine_engagements slice0_def cex_scores sortByDesc_def)
  from a b c d cex_candidates cex_scores(2) show ?thesis by simp
qed


lemma recommended_scored:
  assumes engaged: "engagementsOf s userId \<noteq> []"
    and typed: "stringPostIds (engagementsOf s userId)
        \<or> slice0 limit (recommendedCandidates allPosts (engagementsOf s userId)) = []"
    and limit: "0 \<le> limit"
  shows "\<exists>res. getRecommendedPosts s now allPosts userId limit = Inr (ScoredPosts res)
     \<and> length res = min (nat limit) (length (recommendedCandidates allPosts (engagementsOf s userId)))
     \<and> (\<forall>r \<in> set res. base r \<in> set allPosts
            \<and> JStr (post_id (base r)) \<notin> set (map (\<lambda>e. getProp e ''postId'') (engagementsOf s userId))
            \<and> displayName (base r) \<noteq> firstEngagedName allPosts (engagementsOf s userId)
            \<and> calculatePostScore s now (base r) userId Map.empty = Inr (score r))
     \<and> sorted_wrt (\<lambda>a b. score b \<le> score a) res"
proof -
  let ?cands = "recommendedCandidates allPosts (engagementsOf s userId)"
  let ?f = "\<lambda>p. calculatePostScore s now p userId Map.empty"
  let ?g = "\<lambda>p. case ?f p of Inl err \<Rightarrow> Inl err | Inr sc \<Rightarrow> Inr \<lparr>base = p, score = sc\<rparr>"
  have "\<exists>ys. mapE ?g (slice0 limit ?cands) = Inr ys"
  proof (rule mapE_total)
    fix p assume "p \<in> set (slice0 limit ?cands)"
    with typed have "stringPostIds (engagementsOf s userId)" by auto
    from calculatePostScore_total [OF this] obtain sc where "?f p = Inr sc" by blast
    then show "\<exists>y. ?g p = Inr y" by simp
  qed
  then obtain ys where ys: "mapE ?g (slice0 limit ?cands) = Inr ys" by blast
  have res: "getRecommendedPosts s now allPosts userId limit
               = Inr (ScoredPosts (sortByDesc score ys))"
    using engaged by (simp add: getRecommendedPosts_def Let_def ys)
  have len: "length (sortByDesc score ys) = min (nat limit) (length ?cands)"
    using mapE_length [OF ys] limit by (simp add: sortByDesc_length slice0_length)
  have mem: "\<forall>r \<in> set (sortByDesc score ys). base r \<in> set allPosts
            \<and> JStr (post_id (base r)) \<notin> set (map (\<lambda>e. getProp e ''postId'') (engagementsOf s userId))
            \<and> displayName (base r) \<noteq> firstEngagedName allPosts (engagementsOf s userId)
            \<and> ?f (base r) = Inr (score r)"
  proof
    fix r assume "r \<in> set (sortByDesc score ys)"
    then have "r \<in> set ys" by (simp add: sortByDesc_set)
    from mapE_scored [of ?f, OF ys this]
    have b: "base r \<in> set (slice0 limit ?cands)" and sc: "?f (base r) = Inr (score r)"
      by simp_all
    from b limit have "base r \<in> set ?cands"
      by (auto simp: slice0_def dest: in_set_takeD)
    then have "base r \<in> set allPosts
        \<and> JStr (post_id (base r)) \<notin> set (map (\<lambda>e. getProp e ''postId'') (engagementsOf s userId))
        \<and> displayName (base r) \<noteq> firstEngagedName allPosts (engagementsOf s userId)"
      by (simp add: candidates_alt)
    with sc show "base r \<in> set allPosts
            \<and> JStr (post_id (base r)) \<notin> set (map (\<lambda>e. getProp e ''postId'') (engagementsOf s userId))
            \<and> displayName (base r) \<noteq> firstEngagedName allPosts (engagementsOf s userId)
            \<and> ?f (base r) = Inr (score r)" by simp
  qed
  from res len mem sortByDesc_sorted [of score ys] show ?thesis by blast
qed

lemma recommended_untyped:
  assumes engaged: "engagementsOf s userId \<noteq> []"
    and untyped: "\<not> stringPostIds (engagementsOf s userId)"
    and some: "slice0 limit (recommendedCandidates allPosts (engagementsOf s userId)) \<noteq> []"
  shows "getRecommendedPosts s now allPosts userId limit = Inl TypeError"
proof -
  have "mapE (\<lambda>p. case calculatePostScore s now p userId Map.empty of
                     Inl err \<Rightarrow> Inl err
                   | Inr sc \<Rightarrow> Inr \<lparr>base = p, score = sc\<rparr>)
          (slice0 limit (recommendedCandidates allPosts (engagementsOf s userId))) = Inl TypeError"
    using some by (rule mapE_first_fails) (simp add: calculatePostScore_untyped [OF untyped])
  with engaged show ?thesis
    by (simp add: getRecommendedPosts_def Let_def)
qed

lemma slice0_empty_iff: "0 \<le> limit \<Longrightarrow> slice0 limit xs = [] \<longleftrightarrow> limit = 0 \<or> xs = []"
  by (auto simp: slice0_def)

lemma cexEngine_typed: "stringPostIds (engagementsOf cexEngine ''u1'')"
  by (simp add: cexEngine_engagements stringPostIds_def cex_postIds)

lemma cex_ranking:
  "getRecommendedPosts cexEngine 0 cexPosts ''u1'' 2
     = Inr (ScoredPosts [\<lparr>base = cexP4, score = 11 / 5\<rparr>, \<lparr>base = cexP3, score = 1\<rparr>])"
  unfolding getRecommendedPosts_def Let_def cex_candidates
  by (simp add: cexEngine_engagements slice0_def cex_scores sortByDesc_def)

text \<open>
  No post of the collection was engaged with, so \<^verbatim>\<open>engagedPosts[0]?.displayName\<close> is
  \<^verbatim>\<open>undefined\<close>: the post whose name is \<^verbatim>\<open>null\<close> stays, the post without a name goes.
\<close>

lemma null_name_is_kept:
  "recommendedCandidates [repostedPost, barePost] (engagementsOf exampleEngine ''u1'')
     = [repostedPost]"
  by (simp add: recommendedCandidates_def exampleEngine_engagements makeEngagement_def
      getProp_def Let_def repostedPost_def barePost_def)

lemma badEngine_candidates:
  "recommendedCandidates [examplePost] (engagementsOf badEngine ''u1'') = [examplePost]"
  by (simp add: recommendedCandidates_def badEngine_engagements badEngine_postId Let_def
      examplePost_def)

text \<open>
  C2, as the code has it. Let the user have at least one recorded engagement and let the
  limit not be negative. A candidate is a post of \<open>allPosts\<close> that the user has not engaged
  with and whose \<^verbatim>\<open>displayName\<close> differs from that of the first post of \<open>allPosts\<close> the user
  engaged with (\<^verbatim>\<open>undefined\<close> when there is none). When every recorded engagement of the
  user carries a string postId, or the limit is 0, or there is no candidate,
  \<^verbatim>\<open>getRecommendedPosts\<close> returns scored posts: min(limit, number of candidates) of them,
  each a candidate carrying its \<^verbatim>\<open>calculatePostScore\<close>, in descending order of score.
  Otherwise it throws a TypeError.
\<close>

theorem getRecommendedPosts_engaged:
  assumes engaged: "engagementsOf s userId \<noteq> []"
    and limit: "0 \<le> limit"
  shows "(stringPostIds (engagementsOf s userId) \<or> limit = 0
            \<or> recommendedCandidates allPosts (engagementsOf s userId) = [] \<longrightarrow>
          (\<exists>res. getRecommendedPosts s now allPosts userId limit = Inr (ScoredPosts res)
             \<and> length res
                 = min (nat limit) (length (recommendedCandidates allPosts (engagementsOf s userId)))
             \<and> (\<forall>r \<in> set res. base r \<in> set allPosts
                  \<and> JStr (post_id (base r))
                       \<notin> set (map (\<lambda>e. getProp e ''postId'') (engagementsOf s userId))
                  \<and> displayName (base r) \<noteq> firstEngagedName allPosts (engagementsOf s userId)
                  \<and> calculatePostScore s now (base r) userId Map.empty = Inr (score r))
             \<and> sorted_wrt (\<lambda>a b. score b \<le> score a) res))
       \<and> (\<not> stringPostIds (engagementsOf s userId) \<and> 0 < limit
            \<and> recommendedCandidates allPosts (engagementsOf s userId) \<noteq> [] \<longrightarrow>
          getRecommendedPosts s now allPosts userId limit = Inl TypeError)"
proof (intro conjI impI)
  assume "stringPostIds (engagementsOf s userId) \<or> limit = 0
            \<or> recommendedCandidates allPosts (engagementsOf s userId) = []"
  with limit have "stringPostIds (engagementsOf s userId)
        \<or> slice0 limit (recommendedCandidates allPosts (engagementsOf s userId)) = []"
    by (auto simp: slice0_empty_iff)
  from recommended_scored [OF engaged this limit]
  show "\<exists>res. getRecommendedPosts s now allPosts userId limit = Inr (ScoredPosts res)
             \<and> length res
                 = min (nat limit) (length (recommendedCandidates allPosts (engagementsOf s userId)))
             \<and> (\<forall>r \<in> set res. base r \<in> set allPosts
                  \<and> JStr (post_id (base r))
                       \<notin> set (map (\<lambda>e. getProp e ''postId'') (engagementsOf s userId))
                  \<and> displayName (base r) \<noteq> firstEngagedName allPosts (engagementsOf s userId)
                  \<and> calculatePostScore s now (base r) userId Map.empty = Inr (score r))
             \<and> sorted_wrt (\<lambda>a b. score b \<le> score a) res" .
next
  assume a: "\<not> stringPostIds (engagementsOf s userId) \<and> 0 < limit
            \<and> recommendedCandidates allPosts (engagementsOf s userId) \<noteq> []"
  with limit have "slice0 limit (recommendedCandidates allPosts (engagementsOf s userId)) \<noteq> []"
    by (auto simp: slice0_empty_iff)
  with a engaged show "getRecommendedPosts s now allPosts userId limit = Inl TypeError"
    by (simp add: recommended_untyped)
qed

theorem getRecommendedPosts_engaged_witness:
  "(\<exists>res. getRecommendedPosts cexEngine 0 cexPosts ''u1'' 2 = Inr (ScoredPosts res)
       \<and> res = [\<lparr>base = cexP4, score = 11 / 5\<rparr>, \<lparr>base = cexP3, score = 1\<rparr>]
       \<and> length res = 2
       \<and> sorted_wrt (\<lambda>a b. score b \<le> score a) res)
   \<and> getRecommendedPosts badEngine 0 [examplePost] ''u1'' 10 = Inl TypeError"
proof -
  have e: "engagementsOf cexEngine ''u1'' \<noteq> []"
    by (simp add: cexEngine_engagements)
  from getRecommendedPosts_engaged [OF e, of 2 cexPosts 0] cexEngine_typed
  obtain res where res: "getRecommendedPosts cexEngine 0 cexPosts ''u1'' 2 = Inr (ScoredPosts res)"
      "length res = min (nat 2) (length (recommendedCandidates cexPosts (engagementsOf cexEngine ''u1'')))"
      "sorted_wrt (\<lambda>a b. score b \<le> score a) res"
    by auto
  from res(1) cex_ranking
  have eq: "res = [\<lparr>base = cexP4, score = 11 / 5\<rparr>, \<lparr>base = cexP3, score = 1\<rparr>]" by simp
  from res(2) have len: "length res = 2" by (simp add: cex_candidates)
  have b: "engagementsOf badEngine ''u1'' \<noteq> []"
    by (simp add: badEngine_engagements)
  from getRecommendedPosts_engaged [OF b, of 10 "[examplePost]" 0] badEngine_untyped
  have bad: "getRecommendedPosts badEngine 0 [examplePost] ''u1'' 10 = Inl TypeError"
    by (simp add: badEngine_candidates)
  from res(1) eq len res(3) bad show ?thesis by blast
qed

end
